theory Spec2Isabelle
  imports Complex_Main
begin

section \<open>Values and time\<close>

text \<open>
  Go's \<open>interface{}\<close> values, as \<open>encoding/json\<close> produces them when decoding into
  an empty interface: \<open>nil\<close>, \<open>bool\<close>, \<open>float64\<close>, \<open>string\<close>, \<open>[]interface{}\<close> and
  \<open>map[string]interface{}\<close>. A \<open>float64\<close> is modelled by a real number: arithmetic is
  exact, rounding is not modelled. A \<open>map[string]interface{}\<close> is an association list
  read with \<open>map_of\<close> (one value per key).
\<close>

datatype iface =
    Nil
  | Bool bool
  | Float64 real
  | String string
  | Slice "iface list"
  | Map "(string \<times> iface) list"

type_synonym gomap = "(string \<times> iface) list"

text \<open>\<open>v, _ := m[key].(float64)\<close>: the zero value when the key is missing or not a number.\<close>

definition float64_or_zero :: "gomap \<Rightarrow> string \<Rightarrow> real" where
  "float64_or_zero m key = (case map_of m key of Some (Float64 x) \<Rightarrow> x | _ \<Rightarrow> 0)"

text \<open>
  Instants (\<open>time.Time\<close>) are nanoseconds on one time line; a \<open>time.Duration\<close> is an
  \<open>int64\<close> count of nanoseconds, so products of durations wrap around and the difference
  of two instants saturates (\<open>Time.Sub\<close>).
\<close>

definition Second :: int where
  "Second = 1000000000"

definition Minute :: int where
  "Minute = 60 * Second"

definition wrap64 :: "int \<Rightarrow> int" where
  "wrap64 x = (x + 9223372036854775808) mod 18446744073709551616 - 9223372036854775808"

definition sat64 :: "int \<Rightarrow> int" where
  "sat64 x = max (- 9223372036854775808) (min 9223372036854775807 x)"

text \<open>\<open>time.Since(t)\<close> and \<open>time.Until(t)\<close> at the instant \<open>now\<close>.\<close>

definition Since :: "int \<Rightarrow> int \<Rightarrow> int" where
  "Since now t = sat64 (now - t)"

definition Until :: "int \<Rightarrow> int \<Rightarrow> int" where
  "Until now t = sat64 (t - now)"

text \<open>The zero \<open>time.Time{}\<close>: January 1 of year 1, counted from the Unix epoch.\<close>

definition zeroTime :: int where
  "zeroTime = - 62135596800 * Second"

section \<open>Library functions the access layer calls\<close>

text \<open>
  \<open>strconv.Atoi\<close> of the Go standard library, for a 64-bit \<open>int\<close>: an optional sign
  (\<open>+\<close> or \<open>-\<close>), then one or more decimal digits and nothing else; a value outside
  the \<open>int64\<close> range is a range error. \<open>None\<close> is any error.
\<close>

definition is_digit :: "char \<Rightarrow> bool" where
  "is_digit c = (48 \<le> (of_char c :: nat) \<and> (of_char c :: nat) \<le> 57)"

fun digits_value :: "nat \<Rightarrow> string \<Rightarrow> nat option" where
  "digits_value n [] = Some n"
| "digits_value n (c # cs) =
     (if is_digit c then digits_value (n * 10 + (of_char c - 48)) cs else None)"

definition Atoi :: "string \<Rightarrow> int option" where
  "Atoi s =
     (case s of
        [] \<Rightarrow> None
      | c # cs \<Rightarrow>
          (let neg = (c = CHR ''-'');
               ds = (if c = CHR ''-'' \<or> c = CHR ''+'' then cs else s)
           in if ds = [] then None
              else (case digits_value 0 ds of
                      None \<Rightarrow> None
                    | Some n \<Rightarrow>
                        (let v = (if neg then - int n else int n)
                         in if - 9223372036854775808 \<le> v \<and> v \<le> 9223372036854775807
                            then Some v else None))))"

text \<open>
  The layouts \<open>parseRetryAfter\<close> hands to \<open>time.Parse\<close>. \<open>time.Parse\<close> itself is a
  parameter of the model: a function from a layout and a string to the instant parsed,
  \<open>None\<close> when the string does not fit the layout.
\<close>

datatype layout = RFC1123 | RFC822 | RFC822Z | RFC850 | RFC3339

type_synonym time_parse = "layout \<Rightarrow> string \<Rightarrow> int option"

section \<open>Errors\<close>

datatype error =
    RetryAfterUnparseable string
  | MaxRetriesExceeded
  | MarshalError string
  | PostError string
  | DecodeError string
  | InvalidSlotResponse

section \<open>Retry-After parser\<close>

text \<open>
  The loop over the fallback formats: the first layout that parses to an instant whose
  wait is positive and at most five minutes returns that wait.
\<close>

fun parseFormats :: "time_parse \<Rightarrow> int \<Rightarrow> layout list \<Rightarrow> string \<Rightarrow> int option" where
  "parseFormats parse now [] retryAfter = None"
| "parseFormats parse now (format # formats) retryAfter =
     (case parse format retryAfter of
        Some retryTime \<Rightarrow>
          (let duration = Until now retryTime
           in if duration > 0 \<and> duration \<le> 5 * Minute then Some duration
              else parseFormats parse now formats retryAfter)
      | None \<Rightarrow> parseFormats parse now formats retryAfter)"

definition formats :: "layout list" where
  "formats = [RFC822, RFC822Z, RFC850, RFC3339]"

text \<open>
  \<open>parseRetryAfter\<close>. The clock is read once, at \<open>now\<close>: the reads of the source follow
  each other without waiting. \<open>Inl\<close> is the \<open>error\<close> return.
\<close>

definition parseRetryAfter :: "time_parse \<Rightarrow> int \<Rightarrow> string \<Rightarrow> error + int" where
  "parseRetryAfter parse now retryAfter =
     (case Atoi retryAfter of
        Some seconds \<Rightarrow>
          (let duration = wrap64 (seconds * Second)
           in if duration > 5 * Minute then Inr (5 * Minute) else Inr duration)
      | None \<Rightarrow>
          (case (case parse RFC1123 retryAfter of
                   Some retryTime \<Rightarrow>
                     (let duration = Until now retryTime
                      in if duration > 0 \<and> duration \<le> 5 * Minute then Some duration else None)
                 | None \<Rightarrow> None) of
             Some duration \<Rightarrow> Inr duration
           | None \<Rightarrow>
               (case parseFormats parse now formats retryAfter of
                  Some duration \<Rightarrow> Inr duration
                | None \<Rightarrow> Inl (RetryAfterUnparseable retryAfter))))"

section \<open>The client: rate-limit ledger, cache, block time\<close>

record CacheEntry =
  Data :: iface
  ExpiresAt :: int

record SolanaRPCClient =
  URL :: string
  rateLimiter :: "string \<rightharpoonup> int"
  cache :: "string \<rightharpoonup> CacheEntry"
  lastBlockTime :: real
  lastBlockTimeCheck :: int

record RPCResponse =
  Result :: iface
  Error :: iface

text \<open>
  The constructor. The sampling run it starts in the background is a later application
  of \<open>updateBlockTimeInBackground\<close> to the client.
\<close>

definition NewSolanaClient :: "string \<Rightarrow> SolanaRPCClient" where
  "NewSolanaClient url =
     \<lparr>URL = url, rateLimiter = Map.empty, cache = Map.empty,
      lastBlockTime = 4 / 10, lastBlockTimeCheck = zeroTime\<rparr>"

definition checkRateLimit :: "SolanaRPCClient \<Rightarrow> int \<Rightarrow> string \<Rightarrow> bool" where
  "checkRateLimit s now method =
     (case rateLimiter s method of
        Some lastCall \<Rightarrow> if Since now lastCall < 2 * Second then False else True
      | None \<Rightarrow> True)"

definition updateRateLimit :: "SolanaRPCClient \<Rightarrow> int \<Rightarrow> string \<Rightarrow> SolanaRPCClient" where
  "updateRateLimit s now method = s\<lparr>rateLimiter := (rateLimiter s)(method \<mapsto> now)\<rparr>"

text \<open>\<open>getFromCache\<close> and \<open>setCache\<close>, at the instant \<open>now\<close> that \<open>time.Now()\<close> returns.\<close>

definition getFromCache :: "SolanaRPCClient \<Rightarrow> int \<Rightarrow> string \<Rightarrow> iface \<times> bool" where
  "getFromCache s now key =
     (case cache s key of
        None \<Rightarrow> (Nil, False)
      | Some entry \<Rightarrow> if now > ExpiresAt entry then (Nil, False) else (Data entry, True))"

definition setCache :: "SolanaRPCClient \<Rightarrow> int \<Rightarrow> string \<Rightarrow> iface \<Rightarrow> int \<Rightarrow> SolanaRPCClient" where
  "setCache s now key data duration =
     s\<lparr>cache := (cache s)(key \<mapsto> \<lparr>Data = data, ExpiresAt = now + duration\<rparr>)\<rparr>"

section \<open>Transport\<close>

text \<open>
  What one call of \<open>makeRPCCall\<close> meets outside the program: \<open>json.Marshal\<close> fails, or
  \<open>http.Post\<close> fails, or a response arrives with its status code, its \<open>Retry-After\<close>
  header (the empty string when there is none) and what the JSON decoder makes of the
  body (\<open>Inl\<close> a decoding error).
\<close>

datatype http_outcome =
    MarshalFailed string
  | PostFailed string
  | Responded nat string "string + RPCResponse"

text \<open>
  The trace records every \<open>time.Sleep\<close> with the place it is called from, and every
  \<open>http.Post\<close> with its method; the newest event is first.
\<close>

datatype site = Cooldown | TransportBackoff | ThrottleBackoff | SampleInterval

datatype event = Slept site int | Posted string

text \<open>
  The world around the client: the clock, \<open>time.Parse\<close>, the upstream node (its answer
  to the k-th POST, and how long that POST takes), what the platform makes of the
  conversion \<open>uint64(x)\<close> for a \<open>float64\<close> that no \<open>uint64\<close> represents (Go leaves that
  result to the implementation), the number of POSTs so far and the trace.
\<close>

record env =
  clock :: int
  timeParse :: time_parse
  upstream :: "nat \<Rightarrow> string \<Rightarrow> iface list \<Rightarrow> http_outcome"
  latency :: "nat \<Rightarrow> nat"
  uint64_out_of_range :: "real \<Rightarrow> nat"
  posts :: nat
  trace :: "event list"

text \<open>\<open>time.Sleep(d)\<close> returns at once when \<open>d\<close> is not positive.\<close>

definition sleep :: "site \<Rightarrow> int \<Rightarrow> env \<Rightarrow> env" where
  "sleep st d e = e\<lparr>clock := clock e + max 0 d, trace := Slept st d # trace e\<rparr>"

definition post :: "string \<Rightarrow> env \<Rightarrow> env" where
  "post method e =
     e\<lparr>clock := clock e + int (latency e (posts e)), posts := Suc (posts e),
       trace := Posted method # trace e\<rparr>"

text \<open>
  \<open>makeRPCCall\<close>. On status 429 the response is returned with a nil error even when its
  body does not decode (the response is then the zero \<open>RPCResponse\<close>), and a decoded
  error object gets the raw header under \<open>retryAfter\<close> when the header is not empty.
  The call of \<open>parseRetryAfter\<close> in this branch only feeds the log.
\<close>

definition makeRPCCall :: "env \<Rightarrow> string \<Rightarrow> iface list \<Rightarrow> (error + RPCResponse) \<times> env" where
  "makeRPCCall e method params =
     (case upstream e (posts e) method params of
        MarshalFailed msg \<Rightarrow> (Inl (MarshalError msg), e)
      | PostFailed msg \<Rightarrow> (Inl (PostError msg), post method e)
      | Responded status retryAfter body \<Rightarrow>
          if status = 429 then
            (case body of
               Inl msg \<Rightarrow> (Inr \<lparr>Result = Nil, Error = Nil\<rparr>, post method e)
             | Inr rpcResp \<Rightarrow>
                 (case Error rpcResp of
                    Map errorMap \<Rightarrow>
                      if retryAfter \<noteq> []
                      then (Inr (rpcResp\<lparr>Error := Map ((''retryAfter'', String retryAfter) # errorMap)\<rparr>),
                            post method e)
                      else (Inr rpcResp, post method e)
                  | _ \<Rightarrow> (Inr rpcResp, post method e)))
          else
            (case body of
               Inl msg \<Rightarrow> (Inl (DecodeError msg), post method e)
             | Inr rpcResp \<Rightarrow> (Inr rpcResp, post method e)))"

section \<open>Retrying caller\<close>

definition maxRetries :: nat where
  "maxRetries = 3"

definition baseDelay :: int where
  "baseDelay = 1 * Second"

text \<open>
  \<open>time.Duration(float64(baseDelay) * math.Pow(2, float64(n)))\<close>: for the exponents the
  loop reaches the floating-point product is the exact integer.
\<close>

definition backoff :: "nat \<Rightarrow> int" where
  "backoff n = baseDelay * 2 ^ n"

text \<open>The delay before the next attempt after a response with error code 429.\<close>

definition throttleDelay :: "time_parse \<Rightarrow> int \<Rightarrow> gomap \<Rightarrow> nat \<Rightarrow> int" where
  "throttleDelay parse now errorMap attempt =
     (case map_of errorMap ''retryAfter'' of
        Some (String retryAfter) \<Rightarrow>
          (case parseRetryAfter parse now retryAfter of
             Inr parsedDelay \<Rightarrow> parsedDelay
           | Inl err \<Rightarrow> backoff (attempt + 1))
      | _ \<Rightarrow> backoff (attempt + 1))"

text \<open>
  Whether the error object carries a \<open>retryAfter\<close> string that \<open>parseRetryAfter\<close>
  accepts.
\<close>

definition parseableHint :: "time_parse \<Rightarrow> int \<Rightarrow> gomap \<Rightarrow> bool" where
  "parseableHint parse now errorMap =
     (case map_of errorMap ''retryAfter'' of
        Some (String retryAfter) \<Rightarrow>
          (case parseRetryAfter parse now retryAfter of Inr d \<Rightarrow> True | Inl err \<Rightarrow> False)
      | _ \<Rightarrow> False)"

text \<open>
  One iteration of the \<open>for\<close> loop at index \<open>attempt\<close>: it either returns from the
  function or reaches a \<open>continue\<close>, after which the loop's post statement
  \<open>attempt++\<close> runs.
\<close>

datatype iteration =
    Return "error + RPCResponse" SolanaRPCClient env
  | Continue SolanaRPCClient env

definition attempt_body ::
  "string \<Rightarrow> iface list \<Rightarrow> nat \<Rightarrow> SolanaRPCClient \<Rightarrow> env \<Rightarrow> iteration" where
  "attempt_body method params attempt s e =
     (if \<not> checkRateLimit s (clock e) method then Continue s (sleep Cooldown (2 * Second) e)
      else
        (let s1 = updateRateLimit s (clock e) method in
         case makeRPCCall e method params of
           (Inl err, e1) \<Rightarrow>
             if attempt = maxRetries - 1 then Return (Inl err) s1 e1
             else Continue s1 (sleep TransportBackoff (backoff attempt) e1)
         | (Inr resp, e1) \<Rightarrow>
             (case Error resp of
                Map errorMap \<Rightarrow>
                  if map_of errorMap ''code'' = Some (Float64 429) then
                    if attempt = maxRetries - 1 then Return (Inr resp) s1 e1
                    else Continue s1
                           (sleep ThrottleBackoff
                              (throttleDelay (timeParse e1) (clock e1) errorMap attempt) e1)
                  else Return (Inr resp) s1 e1
              | _ \<Rightarrow> Return (Inr resp) s1 e1)))"

text \<open>The loop from index \<open>attempt\<close> on, and the statement after it.\<close>

function retry_from ::
  "string \<Rightarrow> iface list \<Rightarrow> nat \<Rightarrow> SolanaRPCClient \<Rightarrow> env
   \<Rightarrow> (error + RPCResponse) \<times> SolanaRPCClient \<times> env" where
  "retry_from method params attempt s e =
     (if attempt < maxRetries then
        (case attempt_body method params attempt s e of
           Return r s' e' \<Rightarrow> (r, s', e')
         | Continue s' e' \<Rightarrow> retry_from method params (attempt + 1) s' e')
      else (Inl MaxRetriesExceeded, s, e))"
  by pat_completeness auto
termination
  by (relation "measure (\<lambda>(method, params, attempt, s, e). maxRetries - attempt)") auto

declare retry_from.simps [simp del]

definition makeRPCCallWithRetry ::
  "string \<Rightarrow> iface list \<Rightarrow> SolanaRPCClient \<Rightarrow> env
   \<Rightarrow> (error + RPCResponse) \<times> SolanaRPCClient \<times> env" where
  "makeRPCCallWithRetry method params s e = retry_from method params 0 s e"

text \<open>Counting in a trace: the POSTs, and the cooldown sleeps of rate-limited iterations.\<close>

definition dispatches :: "event list \<Rightarrow> nat" where
  "dispatches evs = length (filter (\<lambda>ev. case ev of Posted m \<Rightarrow> True | Slept st d \<Rightarrow> False) evs)"

definition cooldowns :: "event list \<Rightarrow> nat" where
  "cooldowns evs =
     length (filter (\<lambda>ev. case ev of Posted m \<Rightarrow> False | Slept st d \<Rightarrow> st = Cooldown) evs)"

section \<open>TPS\<close>

text \<open>
  The body of the loop of \<open>calculateTPS\<close>: what one sample adds to \<open>totalTPS\<close>.
\<close>

definition addSample :: "real \<Rightarrow> gomap \<Rightarrow> real" where
  "addSample totalTPS sample =
     (case map_of sample ''numTransactions'' of
        Some (Float64 numTransactions) \<Rightarrow>
          (case map_of sample ''samplePeriodSecs'' of
             Some (Float64 samplePeriodSecs) \<Rightarrow>
               if samplePeriodSecs > 0 then totalTPS + numTransactions / samplePeriodSecs
               else totalTPS
           | _ \<Rightarrow> totalTPS)
      | _ \<Rightarrow> totalTPS)"

fun sumSamples :: "real \<Rightarrow> gomap list \<Rightarrow> real" where
  "sumSamples totalTPS [] = totalTPS"
| "sumSamples totalTPS (sample # samples) = sumSamples (addSample totalTPS sample) samples"

definition calculateTPS :: "gomap list \<Rightarrow> real" where
  "calculateTPS samples =
     (if length samples = 0 then 0
      else sumSamples 0 samples / real (length samples))"

text \<open>
  The rate of one sample as the specification words it: transaction count divided by
  sample period, for a sample whose period is positive.
\<close>

definition sampleRate :: "gomap \<Rightarrow> real option" where
  "sampleRate sample =
     (case (map_of sample ''numTransactions'', map_of sample ''samplePeriodSecs'') of
        (Some (Float64 n), Some (Float64 p)) \<Rightarrow> if p > 0 then Some (n / p) else None
      | _ \<Rightarrow> None)"

text \<open>
  The specification's TPS: the average of the rates over the samples that contributed
  one, and 0 for the empty list.
\<close>

definition spec_averageValidRates :: "gomap list \<Rightarrow> real" where
  "spec_averageValidRates samples =
     (let rates = List.map_filter sampleRate samples
      in if samples = [] then 0 else sum_list rates / real (length rates))"

section \<open>Block-time estimator\<close>

text \<open>
  The conversion \<open>uint64(slot)\<close> of a \<open>float64\<close>: the fraction is discarded when the
  truncated value is a \<open>uint64\<close>; for any other value the result is what the platform
  gives, some \<open>uint64\<close> that the model does not fix.
\<close>

definition uint64_of_float64 :: "(real \<Rightarrow> nat) \<Rightarrow> real \<Rightarrow> nat" where
  "uint64_of_float64 platform x =
     (if - 1 < x \<and> x < 18446744073709551616 then nat \<lfloor>x\<rfloor>
      else platform x mod 18446744073709551616)"

definition GetSlot :: "env \<Rightarrow> (error + nat) \<times> env" where
  "GetSlot e =
     (case makeRPCCall e ''getSlot'' [] of
        (Inl err, e1) \<Rightarrow> (Inl err, e1)
      | (Inr resp, e1) \<Rightarrow>
          (case Result resp of
             Float64 slot \<Rightarrow> (Inr (uint64_of_float64 (uint64_out_of_range e1) slot), e1)
           | _ \<Rightarrow> (Inl InvalidSlotResponse, e1)))"

text \<open>
  \<open>updateBlockTimeInBackground\<close>: two height reads three seconds apart. The slots are
  \<open>uint64\<close>; the difference is taken only when the later slot is the greater, so it does
  not wrap.
\<close>

definition updateBlockTimeInBackground :: "SolanaRPCClient \<Rightarrow> env \<Rightarrow> SolanaRPCClient \<times> env" where
  "updateBlockTimeInBackground s e =
     (case GetSlot e of
        (Inl err, e1) \<Rightarrow> (s, e1)
      | (Inr currentSlot, e1) \<Rightarrow>
          (case GetSlot (sleep SampleInterval (3 * Second) e1) of
             (Inl err, e2) \<Rightarrow> (s, e2)
           | (Inr laterSlot, e2) \<Rightarrow>
               if laterSlot \<le> currentSlot then (s, e2)
               else
                 (let slotDifference = real (laterSlot - currentSlot);
                      timeDifference = 3;
                      blockTime = timeDifference / slotDifference
                  in if blockTime \<ge> 1 / 10 \<and> blockTime \<le> 2
                     then (s\<lparr>lastBlockTime := blockTime, lastBlockTimeCheck := clock e2\<rparr>, e2)
                     else (s, e2))))"

text \<open>The plausibility band of the published block time.\<close>

definition plausible :: "real \<Rightarrow> bool" where
  "plausible blockTime = (1 / 10 \<le> blockTime \<and> blockTime \<le> 2)"

text \<open>
  The client after a sequence of sampling runs, each in its own surroundings (the runs
  write the block time one after the other, under the lock).
\<close>

fun sampling_runs :: "SolanaRPCClient \<Rightarrow> env list \<Rightarrow> SolanaRPCClient" where
  "sampling_runs s [] = s"
| "sampling_runs s (e # es) = sampling_runs (fst (updateBlockTimeInBackground s e)) es"

section \<open>Metrics handler (\<open>/api/metrics\<close>)\<close>

text \<open>
  The \<open>float64\<close> quotient of the handler, checked: \<open>None\<close> records that the division
  was evaluated with a divisor that is not positive (at 0 the \<open>float64\<close> result is an
  infinity or a NaN, which no real number stands for).
\<close>

definition checked_quotient :: "real \<Rightarrow> real \<Rightarrow> real option" where
  "checked_quotient x y = (if y > 0 then Some (x / y) else None)"

text \<open>
  \<open>var epochProgress float64; if slotsInEpoch > 0 { epochProgress = (slotIndex / slotsInEpoch) * 100 }\<close>
\<close>

definition epochProgress :: "real \<Rightarrow> real \<Rightarrow> real option" where
  "epochProgress slotIndex slotsInEpoch =
     (if slotsInEpoch > 0
      then map_option (\<lambda>quotient. quotient * 100) (checked_quotient slotIndex slotsInEpoch)
      else Some 0)"

text \<open>The handler reads both numbers from the decoded \<open>getEpochInfo\<close> result.\<close>

definition metrics_epochProgress :: "gomap \<Rightarrow> real option" where
  "metrics_epochProgress epochInfo =
     (let slotIndex = float64_or_zero epochInfo ''slotIndex'';
          slotsInEpoch = float64_or_zero epochInfo ''slotsInEpoch''
      in epochProgress slotIndex slotsInEpoch)"

text \<open>The \<open>if\<close>/\<open>else if\<close> chain that sets \<open>networkHealth\<close>; \<open>validatorCount\<close> is an \<open>int\<close>.\<close>

definition networkHealth :: "real \<Rightarrow> int \<Rightarrow> string" where
  "networkHealth tps validatorCount =
     (if tps > 100 \<and> validatorCount > 1000 then ''Healthy''
      else if tps > 50 \<and> validatorCount > 500 then ''Good''
      else if tps > 10 then ''Fair''
      else ''Poor'')"

section \<open>Concrete surroundings for the examples\<close>

definition plain_client :: SolanaRPCClient where
  "plain_client = NewSolanaClient ''http://node''"

text \<open>A \<open>time.Parse\<close> that accepts nothing.\<close>

definition noDates :: time_parse where
  "noDates = (\<lambda>format s. None)"

text \<open>A node that answers the first \<open>getSlot\<close> with one height and every later one with another.\<close>

definition slots_env :: "real \<Rightarrow> real \<Rightarrow> env" where
  "slots_env first second =
     \<lparr>clock = 0, timeParse = noDates,
      upstream = (\<lambda>k method params.
         Responded 200 [] (Inr \<lparr>Result = Float64 (if k = 0 then first else second), Error = Nil\<rparr>)),
      latency = (\<lambda>k. 0), uint64_out_of_range = (\<lambda>x. 0), posts = 0, trace = []\<rparr>"

text \<open>A node that refuses every connection; each POST takes one second to fail.\<close>

definition failing_env :: env where
  "failing_env =
     \<lparr>clock = 0, timeParse = noDates,
      upstream = (\<lambda>k method params. PostFailed ''connection refused''),
      latency = (\<lambda>k. 1000000000), uint64_out_of_range = (\<lambda>x. 0), posts = 0,
      trace = []\<rparr>"

text \<open>A client that has just dispatched \<open>getSlot\<close>, at time 0.\<close>

definition busy_client :: SolanaRPCClient where
  "busy_client = updateRateLimit plain_client 0 ''getSlot''"

text \<open>A JSON-RPC response whose error object has the numeric code 429.\<close>

definition throttled :: RPCResponse where
  "throttled =
     \<lparr>Result = Nil,
      Error = Map [(''code'', Float64 429), (''message'', String ''Too many requests'')]\<rparr>"

text \<open>A node that throttles every request, without and with a \<open>Retry-After\<close> header.\<close>

definition throttling_env :: env where
  "throttling_env =
     \<lparr>clock = 0, timeParse = noDates,
      upstream = (\<lambda>k method params. Responded 429 [] (Inr throttled)),
      latency = (\<lambda>k. 0), uint64_out_of_range = (\<lambda>x. 0), posts = 0, trace = []\<rparr>"

definition hinting_env :: env where
  "hinting_env =
     \<lparr>clock = 0, timeParse = noDates,
      upstream = (\<lambda>k method params. Responded 429 ''1'' (Inr throttled)),
      latency = (\<lambda>k. 0), uint64_out_of_range = (\<lambda>x. 0), posts = 0, trace = []\<rparr>"

text \<open>
  A \<open>time.Parse\<close> that knows one HTTP date, under the layout \<open>RFC1123\<close> only:
  784111777 seconds after the Unix epoch.
\<close>

definition oneHttpDate :: time_parse where
  "oneHttpDate =
     (\<lambda>format s. if format = RFC1123 \<and> s = ''Sun, 06 Nov 1994 08:49:37 GMT''
                  then Some (784111777 * Second) else None)"

section \<open>Cache\<close>

text \<open>
  C6, as the code has it. For every key, value and ttl: after \<open>setCache(key, value, ttl)\<close>
  at the instant \<open>now\<close>, \<open>getFromCache(key)\<close> at any time up to and including
  \<open>now + ttl\<close> returns \<open>(value, true)\<close>; at any time strictly after the stored expiry, and
  for a key never set, it returns \<open>(nil, false)\<close>; \<open>setCache\<close> overwrites whatever entry
  the key had, and leaves the other keys alone.
\<close>

theorem cache_get_after_set:
  "(t \<le> now + ttl \<longrightarrow> getFromCache (setCache s now key v ttl) t key = (v, True))
   \<and> (now + ttl < t \<longrightarrow> getFromCache (setCache s now key v ttl) t key = (Nil, False))
   \<and> (cache s key = None \<longrightarrow> getFromCache s t key = (Nil, False))
   \<and> (cache s key = Some entry \<and> ExpiresAt entry < t \<longrightarrow> getFromCache s t key = (Nil, False))
   \<and> setCache (setCache s now0 key v0 ttl0) now key v ttl = setCache s now key v ttl
   \<and> cache (setCache s now key v ttl) key = Some \<lparr>Data = v, ExpiresAt = now + ttl\<rparr>
   \<and> (key' \<noteq> key \<longrightarrow> getFromCache (setCache s now key v ttl) t key' = getFromCache s t key')"
  by (simp add: getFromCache_def setCache_def)

theorem cache_get_after_set_witness:
  "(0::int) \<le> 0 + Second
   \<and> getFromCache (setCache plain_client 0 ''k'' (String ''v'') Second) 0 ''k'' = (String ''v'', True)
   \<and> 0 + Second < 2 * Second
   \<and> getFromCache (setCache plain_client 0 ''k'' (String ''v'') Second) (2 * Second) ''k''
       = (Nil, False)
   \<and> cache plain_client ''k'' = None
   \<and> getFromCache plain_client 0 ''k'' = (Nil, False)
   \<and> cache (setCache plain_client 0 ''k'' (String ''v'') Second) ''k''
       = Some \<lparr>Data = String ''v'', ExpiresAt = 0 + Second\<rparr>
   \<and> ExpiresAt \<lparr>Data = String ''v'', ExpiresAt = 0 + Second\<rparr> < 2 * Second
   \<and> ''j'' \<noteq> ''k''
   \<and> getFromCache (setCache plain_client 0 ''k'' (String ''v'') Second) 0 ''j''
       = getFromCache plain_client 0 ''j''"
  using cache_get_after_set [where t = 0 and now = 0 and ttl = Second and s = plain_client
      and key = "''k''" and v = "String ''v''" and key' = "''j''"
      and entry = "\<lparr>Data = String ''v'', ExpiresAt = 0 + Second\<rparr>"]
    cache_get_after_set [where t = "2 * Second" and now = 0 and ttl = Second and s = plain_client
      and key = "''k''" and v = "String ''v''"]
    cache_get_after_set [where t = "2 * Second" and now = 0 and ttl = Second
      and s = "setCache plain_client 0 ''k'' (String ''v'') Second"
      and key = "''k''" and v = "String ''v''"
      and entry = "\<lparr>Data = String ''v'', ExpiresAt = 0 + Second\<rparr>"]
  by (simp add: Second_def plain_client_def NewSolanaClient_def)

text \<open>
  C6, as stated, fails at the instant of expiry itself: a value set at time 0 with a ttl
  of one second is still returned by a lookup at exactly one second, a time that is not
  before the stored expiry (\<open>getFromCache\<close> tests \<open>time.Now().After(entry.ExpiresAt)\<close>).
\<close>

theorem cache_expiry_instant_counterexample:
  "\<not> (Second < 0 + Second)
   \<and> getFromCache (setCache plain_client 0 ''k'' (String ''v'') Second) Second ''k''
       = (String ''v'', True)"
  by (simp add: getFromCache_def setCache_def)

section \<open>TPS aggregation\<close>

lemma sumSamples_acc: "sumSamples t xs = t + sumSamples 0 xs"
proof (induction xs arbitrary: t)
  case Nil
  then show ?case by simp
next
  case (Cons x xs)
  have a: "addSample t x = t + addSample 0 x"
    by (simp add: addSample_def split: option.splits iface.splits)
  show ?case
    using Cons.IH [of "addSample t x"] Cons.IH [of "addSample 0 x"] a by simp
qed

lemma addSample_rate: "addSample 0 x = (case sampleRate x of Some r \<Rightarrow> r | None \<Rightarrow> 0)"
  by (simp add: addSample_def sampleRate_def split: option.splits iface.splits)

lemma sumSamples_rates:
  "sumSamples 0 xs = (\<Sum>x\<leftarrow>xs. case sampleRate x of Some r \<Rightarrow> r | None \<Rightarrow> 0)"
proof (induction xs)
  case Nil
  then show ?case by simp
next
  case (Cons x xs)
  then show ?case
    using sumSamples_acc [of "addSample 0 x" xs] by (simp add: addSample_rate)
qed

lemma sum_list_valid_rates:
  "(\<Sum>x\<leftarrow>xs. case sampleRate x of Some r \<Rightarrow> r | None \<Rightarrow> 0) = sum_list (List.map_filter sampleRate xs)"
  by (induction xs) (auto split: option.splits)

lemma length_valid_rates:
  "(\<forall>x \<in> set xs. sampleRate x \<noteq> None) \<Longrightarrow> length (List.map_filter sampleRate xs) = length xs"
  by (induction xs) (auto split: option.splits)

text \<open>
  C2, as the code has it. \<open>calculateTPS\<close> adds up transaction count divided by sample
  period over the samples whose period is positive, and divides the sum by the number of
  all samples of the list: a sample without a valid rate adds nothing to the sum and
  still counts in the divisor. The empty list gives 0, the samples
  \<open>{tx:100, period:10}\<close> and \<open>{tx:50, period:5}\<close> give 10, and when every sample has a
  valid rate the result is the average of the rates over the contributing samples.
\<close>

theorem calculateTPS_average_over_all_samples:
  "calculateTPS samples =
     (if samples = [] then 0
      else (\<Sum>x\<leftarrow>samples. case sampleRate x of Some r \<Rightarrow> r | None \<Rightarrow> 0) / real (length samples))
   \<and> calculateTPS [] = 0
   \<and> calculateTPS [[(''numTransactions'', Float64 100), (''samplePeriodSecs'', Float64 10)],
                    [(''numTransactions'', Float64 50), (''samplePeriodSecs'', Float64 5)]] = 10
   \<and> ((\<forall>x \<in> set samples. sampleRate x \<noteq> None)
        \<longrightarrow> calculateTPS samples = spec_averageValidRates samples)"
proof -
  have a: "calculateTPS samples =
     (if samples = [] then 0
      else (\<Sum>x\<leftarrow>samples. case sampleRate x of Some r \<Rightarrow> r | None \<Rightarrow> 0) / real (length samples))"
    by (simp add: calculateTPS_def sumSamples_rates)
  have b: "calculateTPS [] = 0"
    by (simp add: calculateTPS_def)
  have c: "calculateTPS [[(''numTransactions'', Float64 100), (''samplePeriodSecs'', Float64 10)],
                    [(''numTransactions'', Float64 50), (''samplePeriodSecs'', Float64 5)]] = 10"
    by (simp add: calculateTPS_def addSample_def)
  have d: "(\<forall>x \<in> set samples. sampleRate x \<noteq> None)
        \<longrightarrow> calculateTPS samples = spec_averageValidRates samples"
    using length_valid_rates [of samples]
    by (simp add: a spec_averageValidRates_def sum_list_valid_rates)
  show ?thesis using a b c d by blast
qed

theorem calculateTPS_average_over_all_samples_witness:
  "sampleRate [(''numTransactions'', Float64 100), (''samplePeriodSecs'', Float64 10)] \<noteq> None
   \<and> sampleRate [(''numTransactions'', Float64 50), (''samplePeriodSecs'', Float64 5)] \<noteq> None
   \<and> calculateTPS [[(''numTransactions'', Float64 100), (''samplePeriodSecs'', Float64 10)],
                    [(''numTransactions'', Float64 50), (''samplePeriodSecs'', Float64 5)]]
       = spec_averageValidRates
           [[(''numTransactions'', Float64 100), (''samplePeriodSecs'', Float64 10)],
            [(''numTransactions'', Float64 50), (''samplePeriodSecs'', Float64 5)]]"
  using calculateTPS_average_over_all_samples
    [of "[[(''numTransactions'', Float64 100), (''samplePeriodSecs'', Float64 10)],
          [(''numTransactions'', Float64 50), (''samplePeriodSecs'', Float64 5)]]"]
  by (simp add: sampleRate_def)

text \<open>
  C2, as stated, fails on a list with a sample whose period is not positive: for
  \<open>{tx:100, period:10}\<close> and \<open>{tx:50, period:0}\<close> only the first sample contributes a
  rate, the average over the contributing samples is 10, and \<open>calculateTPS\<close> returns
  10 / 2 = 5.
\<close>

theorem calculateTPS_counterexample:
  "calculateTPS [[(''numTransactions'', Float64 100), (''samplePeriodSecs'', Float64 10)],
                 [(''numTransactions'', Float64 50), (''samplePeriodSecs'', Float64 0)]] = 5
   \<and> spec_averageValidRates
         [[(''numTransactions'', Float64 100), (''samplePeriodSecs'', Float64 10)],
          [(''numTransactions'', Float64 50), (''samplePeriodSecs'', Float64 0)]] = 10"
  by (simp add: calculateTPS_def addSample_def spec_averageValidRates_def sampleRate_def)

section \<open>Epoch progress\<close>

text \<open>
  C8. For every slot index and slots-per-epoch the handler's epoch progress is
  \<open>(slotIndex / slotsInEpoch) * 100\<close> when \<open>slotsInEpoch\<close> is positive and 0 otherwise
  (also when the field is missing from the epoch info), and the division is never
  evaluated with a divisor that is not positive: the checked quotient never reports one,
  as it does when it is formed at 0 or below without the guard.
  \<open>slotIndex = 25, slotsInEpoch = 100\<close> gives 25 and \<open>slotsInEpoch = 0\<close> gives 0.
\<close>

theorem epochProgress_guarded:
  "epochProgress slotIndex slotsInEpoch \<noteq> None
   \<and> metrics_epochProgress epochInfo \<noteq> None
   \<and> (0 < slotsInEpoch \<longrightarrow>
        epochProgress slotIndex slotsInEpoch = Some ((slotIndex / slotsInEpoch) * 100))
   \<and> (\<not> 0 < slotsInEpoch \<longrightarrow> epochProgress slotIndex slotsInEpoch = Some 0)
   \<and> (\<not> 0 < slotsInEpoch \<longrightarrow> checked_quotient slotIndex slotsInEpoch = None)
   \<and> metrics_epochProgress [(''slotIndex'', Float64 slotIndex), (''slotsInEpoch'', Float64 slotsInEpoch)]
       = epochProgress slotIndex slotsInEpoch
   \<and> metrics_epochProgress [(''slotIndex'', Float64 slotIndex)] = Some 0
   \<and> epochProgress 25 100 = Some 25
   \<and> epochProgress slotIndex 0 = Some 0"
proof -
  have safe: "epochProgress x y \<noteq> None" for x y
    by (simp add: epochProgress_def checked_quotient_def)
  have handler: "metrics_epochProgress epochInfo \<noteq> None"
    by (simp add: metrics_epochProgress_def Let_def safe)
  have cases: "(0 < slotsInEpoch \<longrightarrow>
        epochProgress slotIndex slotsInEpoch = Some ((slotIndex / slotsInEpoch) * 100))
   \<and> (\<not> 0 < slotsInEpoch \<longrightarrow> epochProgress slotIndex slotsInEpoch = Some 0)
   \<and> (\<not> 0 < slotsInEpoch \<longrightarrow> checked_quotient slotIndex slotsInEpoch = None)"
    by (simp add: epochProgress_def checked_quotient_def)
  have fields: "metrics_epochProgress [(''slotIndex'', Float64 slotIndex), (''slotsInEpoch'', Float64 slotsInEpoch)]
       = epochProgress slotIndex slotsInEpoch
   \<and> metrics_epochProgress [(''slotIndex'', Float64 slotIndex)] = Some 0"
    by (simp add: metrics_epochProgress_def float64_or_zero_def epochProgress_def)
  have examples: "epochProgress 25 100 = Some 25 \<and> epochProgress slotIndex 0 = Some 0"
    by (simp add: epochProgress_def checked_quotient_def)
  show ?thesis
    using safe [of slotIndex slotsInEpoch] handler cases fields examples by blast
qed

theorem epochProgress_guarded_witness:
  "(0::real) < 100 \<and> epochProgress 25 100 = Some ((25 / 100) * 100)
   \<and> \<not> (0::real) < 0 \<and> epochProgress 25 0 = Some 0 \<and> checked_quotient 25 0 = None"
  using epochProgress_guarded [of 25 100] epochProgress_guarded [of 25 0] by simp

section \<open>Health classification\<close>

text \<open>
  C9. The health label is decided by the first rule that matches, in this order:
  TPS above 100 with more than 1000 validators is "Healthy"; otherwise TPS above 50 with
  more than 500 validators is "Good"; otherwise TPS above 10 is "Fair"; otherwise "Poor".
  (101, 1001) is "Healthy", (60, 600) is "Good", (11, 10) is "Fair" and TPS 5 is "Poor"
  whatever the validator count.
\<close>

theorem networkHealth_first_match:
  "networkHealth tps v =
     (if tps > 100 \<and> v > 1000 then ''Healthy''
      else if tps > 50 \<and> v > 500 then ''Good''
      else if tps > 10 then ''Fair'' else ''Poor'')
   \<and> networkHealth 101 1001 = ''Healthy''
   \<and> networkHealth 60 600 = ''Good''
   \<and> networkHealth 11 10 = ''Fair''
   \<and> networkHealth 5 v = ''Poor''"
  by (simp add: networkHealth_def)

section \<open>Block-time estimator: the plausibility band\<close>

lemma update_alt:
  "updateBlockTimeInBackground s e =
     (case GetSlot e of
        (Inl err, e1) \<Rightarrow> (s, e1)
      | (Inr currentSlot, e1) \<Rightarrow>
          (case GetSlot (sleep SampleInterval (3 * Second) e1) of
             (Inl err, e2) \<Rightarrow> (s, e2)
           | (Inr laterSlot, e2) \<Rightarrow>
               if laterSlot \<le> currentSlot then (s, e2)
               else if plausible (3 / real (laterSlot - currentSlot))
                 then (s\<lparr>lastBlockTime := 3 / real (laterSlot - currentSlot),
                         lastBlockTimeCheck := clock e2\<rparr>, e2)
                 else (s, e2)))"
  by (simp only: updateBlockTimeInBackground_def plausible_def Let_def)

lemma update_cases:
  "fst (updateBlockTimeInBackground s e) = s
   \<or> (\<exists>blockTime now. plausible blockTime
        \<and> fst (updateBlockTimeInBackground s e) = s\<lparr>lastBlockTime := blockTime, lastBlockTimeCheck := now\<rparr>)"
  unfolding update_alt by (auto split: prod.splits sum.splits)

lemma update_keeps_plausible:
  "plausible (lastBlockTime s) \<Longrightarrow> plausible (lastBlockTime (fst (updateBlockTimeInBackground s e)))"
  using update_cases [of s e] by auto

lemma sampling_runs_plausible:
  "plausible (lastBlockTime s) \<Longrightarrow> plausible (lastBlockTime (sampling_runs s es))"
  by (induction es arbitrary: s) (auto intro: update_keeps_plausible)

lemma new_client_plausible: "plausible (lastBlockTime (NewSolanaClient url))"
  by (simp add: NewSolanaClient_def plausible_def)

text \<open>
  C7. The published block time is always within the plausibility band: a new client
  holds 0.4 seconds, every sampling run keeps a value of the band within the band, and so
  does any sequence of runs from a new client; a run that changes the client writes a
  value between 0.1 and 2.0 seconds together with the time of the write; a run whose
  sample is outside the band (5.0 seconds per block is outside), or whose second height
  is not above the first, leaves the client, with \<open>lastBlockTime\<close> and
  \<open>lastBlockTimeCheck\<close>, as it was.
\<close>

theorem blockTime_within_band:
  "lastBlockTime (NewSolanaClient url) = 4 / 10
   \<and> plausible (lastBlockTime (sampling_runs (NewSolanaClient url) es))
   \<and> (plausible (lastBlockTime s) \<longrightarrow> plausible (lastBlockTime (fst (updateBlockTimeInBackground s e))))
   \<and> (GetSlot e = (Inr currentSlot, e1) \<and> GetSlot (sleep SampleInterval (3 * Second) e1) = (Inr laterSlot, e2)
        \<and> currentSlot < laterSlot \<and> plausible (3 / real (laterSlot - currentSlot))
      \<longrightarrow> updateBlockTimeInBackground s e
            = (s\<lparr>lastBlockTime := 3 / real (laterSlot - currentSlot), lastBlockTimeCheck := clock e2\<rparr>, e2))
   \<and> (GetSlot e = (Inr currentSlot, e1) \<and> GetSlot (sleep SampleInterval (3 * Second) e1) = (Inr laterSlot, e2)
        \<and> (laterSlot \<le> currentSlot \<or> \<not> plausible (3 / real (laterSlot - currentSlot)))
      \<longrightarrow> fst (updateBlockTimeInBackground s e) = s)
   \<and> (fst (updateBlockTimeInBackground s e) \<noteq> s
      \<longrightarrow> plausible (lastBlockTime (fst (updateBlockTimeInBackground s e))))
   \<and> \<not> plausible 5"
proof -
  have a: "lastBlockTime (NewSolanaClient url) = 4 / 10"
    by (simp add: NewSolanaClient_def)
  have b: "plausible (lastBlockTime (sampling_runs (NewSolanaClient url) es))"
    by (rule sampling_runs_plausible [OF new_client_plausible])
  have c: "plausible (lastBlockTime s) \<longrightarrow> plausible (lastBlockTime (fst (updateBlockTimeInBackground s e)))"
    by (simp add: update_keeps_plausible)
  have d: "GetSlot e = (Inr currentSlot, e1) \<and> GetSlot (sleep SampleInterval (3 * Second) e1) = (Inr laterSlot, e2)
        \<and> currentSlot < laterSlot \<and> plausible (3 / real (laterSlot - currentSlot))
      \<longrightarrow> updateBlockTimeInBackground s e
            = (s\<lparr>lastBlockTime := 3 / real (laterSlot - currentSlot), lastBlockTimeCheck := clock e2\<rparr>, e2)"
    by (clarsimp simp: update_alt of_nat_diff)
  have f: "GetSlot e = (Inr currentSlot, e1) \<and> GetSlot (sleep SampleInterval (3 * Second) e1) = (Inr laterSlot, e2)
        \<and> (laterSlot \<le> currentSlot \<or> \<not> plausible (3 / real (laterSlot - currentSlot)))
      \<longrightarrow> fst (updateBlockTimeInBackground s e) = s"
    by (auto simp: update_alt)
  have g: "fst (updateBlockTimeInBackground s e) \<noteq> s
      \<longrightarrow> plausible (lastBlockTime (fst (updateBlockTimeInBackground s e)))"
    using update_cases [of s e] by auto
  have h: "\<not> plausible 5" by (simp add: plausible_def)
  show ?thesis using a b c d f g h by blast
qed

lemma GetSlot_slots_env_first:
  "GetSlot (slots_env a b)
     = (Inr (uint64_of_float64 (\<lambda>x. 0) a), post ''getSlot'' (slots_env a b))"
  by (simp add: GetSlot_def makeRPCCall_def slots_env_def post_def)

lemma GetSlot_slots_env_second:
  "GetSlot (sleep SampleInterval (3 * Second) (post ''getSlot'' (slots_env a b)))
     = (Inr (uint64_of_float64 (\<lambda>x. 0) b),
        post ''getSlot'' (sleep SampleInterval (3 * Second) (post ''getSlot'' (slots_env a b))))"
  by (simp add: GetSlot_def makeRPCCall_def slots_env_def post_def sleep_def)

theorem blockTime_within_band_witness:
  "plausible (lastBlockTime plain_client)
   \<and> GetSlot (slots_env 100 110) = (Inr 100, post ''getSlot'' (slots_env 100 110))
   \<and> (100::nat) < 110 \<and> plausible (3 / real (110 - 100 :: nat))
   \<and> lastBlockTime (fst (updateBlockTimeInBackground plain_client (slots_env 100 110))) = 3 / 10
   \<and> GetSlot (slots_env 100 101) = (Inr 100, post ''getSlot'' (slots_env 100 101))
   \<and> \<not> plausible (3 / real (101 - 100 :: nat))
   \<and> fst (updateBlockTimeInBackground plain_client (slots_env 100 101)) = plain_client
   \<and> (100 :: nat) \<le> 100
   \<and> fst (updateBlockTimeInBackground plain_client (slots_env 100 100)) = plain_client
   \<and> fst (updateBlockTimeInBackground plain_client (slots_env 100 110)) \<noteq> plain_client
   \<and> plausible (lastBlockTime (fst (updateBlockTimeInBackground plain_client (slots_env 100 110))))"
  using blockTime_within_band [where s = plain_client and e = "slots_env 100 110" and currentSlot = 100
      and laterSlot = 110 and ?e1.0 = "post ''getSlot'' (slots_env 100 110)"
      and ?e2.0 = "post ''getSlot'' (sleep SampleInterval (3 * Second) (post ''getSlot'' (slots_env 100 110)))"]
    blockTime_within_band [where s = plain_client and e = "slots_env 100 101" and currentSlot = 100
      and laterSlot = 101 and ?e1.0 = "post ''getSlot'' (slots_env 100 101)"
      and ?e2.0 = "post ''getSlot'' (sleep SampleInterval (3 * Second) (post ''getSlot'' (slots_env 100 101)))"]
    blockTime_within_band [where s = plain_client and e = "slots_env 100 100" and currentSlot = 100
      and laterSlot = 100 and ?e1.0 = "post ''getSlot'' (slots_env 100 100)"
      and ?e2.0 = "post ''getSlot'' (sleep SampleInterval (3 * Second) (post ''getSlot'' (slots_env 100 100)))"]
  by (simp add: GetSlot_slots_env_first GetSlot_slots_env_second uint64_of_float64_def plausible_def
      plain_client_def NewSolanaClient_def)

section \<open>Retry-After parser: the integer branch and the date branches\<close>

lemma wrap64_in_range:
  "- 9223372036854775808 \<le> x \<Longrightarrow> x \<le> 9223372036854775807 \<Longrightarrow> wrap64 x = x"
  by (simp add: wrap64_def)

lemma seconds_no_overflow:
  "- 9223372036 \<le> n \<Longrightarrow> n \<le> 9223372036 \<Longrightarrow> wrap64 (n * Second) = n * Second"
  by (rule wrap64_in_range) (simp_all add: Second_def)

lemma parseRetryAfter_integer:
  "Atoi s = Some n \<Longrightarrow>
     parseRetryAfter parse now s =
       Inr (if wrap64 (n * Second) > 5 * Minute then 5 * Minute else wrap64 (n * Second))"
  by (simp add: parseRetryAfter_def Let_def)

text \<open>
  Without an integer, the primary format and the fallback formats are tried as one
  ordered list, under one acceptance rule; when none is accepted the result is the parse
  error.
\<close>

lemma parseRetryAfter_dates:
  "Atoi s = None \<Longrightarrow>
     parseRetryAfter parse now s =
       (case parseFormats parse now (RFC1123 # formats) s of
          Some d \<Rightarrow> Inr d
        | None \<Rightarrow> Inl (RetryAfterUnparseable s))"
  by (simp add: parseRetryAfter_def Let_def split: option.splits)

lemma parseFormats_None:
  "parseFormats parse now fs s = None \<longleftrightarrow>
     (\<forall>f \<in> set fs. case parse f s of None \<Rightarrow> True
        | Some t \<Rightarrow> \<not> (Until now t > 0 \<and> Until now t \<le> 5 * Minute))"
  by (induction fs) (auto simp: Let_def split: option.splits)

lemma parseFormats_Some:
  "parseFormats parse now fs s = Some d \<Longrightarrow> 0 < d \<and> d \<le> 5 * Minute"
  by (induction fs) (auto simp: Let_def split: option.splits if_splits)

lemma parseRetryAfter_at_most_five_minutes:
  "parseRetryAfter parse now s = Inr d \<Longrightarrow> d \<le> 5 * Minute"
proof (cases "Atoi s")
  case None
  assume r: "parseRetryAfter parse now s = Inr d"
  have "parseFormats parse now (RFC1123 # formats) s = Some d"
    using r unfolding parseRetryAfter_dates [OF None]
    by (cases "parseFormats parse now (RFC1123 # formats) s") simp_all
  then show ?thesis
    using parseFormats_Some by blast
next
  case (Some n)
  assume r: "parseRetryAfter parse now s = Inr d"
  show ?thesis
    using r unfolding parseRetryAfter_integer [OF Some] by (simp split: if_splits)
qed

lemma Atoi_zero: "Atoi ''0'' = Some 0"
  by (simp add: Atoi_def is_digit_def)

lemma Atoi_minus_five: "Atoi ''-5'' = Some (- 5)"
  by (simp add: Atoi_def is_digit_def)

text \<open>
  The examples of the parser that the code meets: \<open>"120"\<close> is 120 s, \<open>"400"\<close> is
  clamped to 300 s, an HTTP date that has passed is rejected, the same date 30 s ahead
  is a wait of 30 s, and a string of no known form is the parse error.
\<close>

lemma parseRetryAfter_examples:
  "parseRetryAfter parse now ''120'' = Inr (120 * Second)
   \<and> parseRetryAfter parse now ''400'' = Inr (5 * Minute)
   \<and> parseRetryAfter oneHttpDate (784111777 * Second + 1) ''Sun, 06 Nov 1994 08:49:37 GMT''
       = Inl (RetryAfterUnparseable ''Sun, 06 Nov 1994 08:49:37 GMT'')
   \<and> parseRetryAfter oneHttpDate (784111747 * Second) ''Sun, 06 Nov 1994 08:49:37 GMT''
       = Inr (30 * Second)
   \<and> parseRetryAfter noDates now ''soon'' = Inl (RetryAfterUnparseable ''soon'')"
  by (simp add: parseRetryAfter_def Atoi_def is_digit_def wrap64_def Second_def Minute_def
      oneHttpDate_def noDates_def formats_def Until_def sat64_def)

text \<open>
  C3, at the input \<open>"9223372037"\<close>. The string is a plain integer number of seconds, far
  above five minutes, so the clamp should give 300 s. \<open>time.Duration(seconds) * time.Second\<close>
  leaves the \<open>int64\<close> range and wraps to a negative number of nanoseconds, which is not
  above five minutes and is returned as it is.
\<close>

theorem parseRetryAfter_integer_overflow:
  "Atoi ''9223372037'' = Some 9223372037
   \<and> parseRetryAfter noDates 0 ''9223372037'' = Inr (- 9223372036709551616)
   \<and> parseRetryAfter noDates 0 ''9223372037'' \<noteq> Inr (5 * Minute)"
  by (simp add: parseRetryAfter_def Atoi_def is_digit_def wrap64_def Second_def Minute_def)

text \<open>
  C10, as the code has it. For every string that parses as an integer \<open>n\<close> of seconds
  with \<open>-9223372036 \<le> n \<le> 0\<close> (the non-positive values whose nanoseconds fit an
  \<open>int64\<close>), \<open>parseRetryAfter\<close> succeeds and returns that non-positive duration, not a
  parse error: the integer branch has the five-minute upper clamp only and no
  strictly-positive requirement.
\<close>

theorem parseRetryAfter_nonpositive_integer:
  "Atoi s = Some n \<Longrightarrow> - 9223372036 \<le> n \<Longrightarrow> n \<le> 0 \<Longrightarrow>
     parseRetryAfter parse now s = Inr (n * Second) \<and> n * Second \<le> 0"
proof -
  assume a: "Atoi s = Some n" and lo: "- 9223372036 \<le> n" and hi: "n \<le> 0"
  have w: "wrap64 (n * Second) = n * Second"
    using lo hi by (intro seconds_no_overflow) simp_all
  have neg: "n * Second \<le> 0"
    using hi by (simp add: Second_def mult_le_0_iff)
  have "\<not> n * Second > 5 * Minute"
    using neg by (simp add: Minute_def Second_def)
  then show ?thesis
    using neg by (simp add: parseRetryAfter_integer [OF a] w)
qed

theorem parseRetryAfter_nonpositive_integer_witness:
  "Atoi ''-5'' = Some (- 5) \<and> - 9223372036 \<le> (- 5 :: int) \<and> (- 5 :: int) \<le> 0
   \<and> parseRetryAfter noDates 0 ''-5'' = Inr (- 5 * Second)
   \<and> Atoi ''0'' = Some 0 \<and> parseRetryAfter noDates 0 ''0'' = Inr 0"
  using parseRetryAfter_nonpositive_integer [OF Atoi_minus_five, of noDates 0]
    parseRetryAfter_nonpositive_integer [OF Atoi_zero, of noDates 0]
  by (simp add: Atoi_minus_five Atoi_zero)

text \<open>
  C10, as stated, fails for a negative integer whose nanoseconds leave the \<open>int64\<close>
  range: \<open>"-9223372037"\<close> parses as a negative integer, the product wraps to a positive
  number above five minutes, and the result is the positive five minutes.
\<close>

theorem parseRetryAfter_negative_overflow_counterexample:
  "Atoi ''-9223372037'' = Some (- 9223372037)
   \<and> parseRetryAfter noDates 0 ''-9223372037'' = Inr (5 * Minute)
   \<and> 0 < 5 * Minute"
  by (simp add: parseRetryAfter_def Atoi_def is_digit_def wrap64_def Second_def Minute_def)

section \<open>Retrying caller: one iteration\<close>

lemma throttleDelay_no_hint:
  "\<not> parseableHint parse now errorMap \<Longrightarrow> throttleDelay parse now errorMap attempt = backoff (attempt + 1)"
  by (auto simp: parseableHint_def throttleDelay_def split: option.splits iface.splits sum.splits)

lemma retry_from_rate_limited:
  "attempt < maxRetries \<Longrightarrow> \<not> checkRateLimit s (clock e) m \<Longrightarrow>
     retry_from m ps attempt s e
       = retry_from m ps (attempt + 1) s (sleep Cooldown (2 * Second) e)"
  by (subst retry_from.simps) (simp add: attempt_body_def)

lemma body_transport_failure:
  "checkRateLimit s (clock e) m \<Longrightarrow> makeRPCCall e m ps = (Inl err, e1) \<Longrightarrow>
     attempt_body m ps attempt s e =
       (if attempt = maxRetries - 1 then Return (Inl err) (updateRateLimit s (clock e) m) e1
        else Continue (updateRateLimit s (clock e) m) (sleep TransportBackoff (backoff attempt) e1))"
  by (simp add: attempt_body_def)

lemma body_throttled:
  "checkRateLimit s (clock e) m \<Longrightarrow> makeRPCCall e m ps = (Inr resp, e1) \<Longrightarrow>
   Error resp = Map errorMap \<Longrightarrow> map_of errorMap ''code'' = Some (Float64 429) \<Longrightarrow>
     attempt_body m ps attempt s e =
       (if attempt = maxRetries - 1 then Return (Inr resp) (updateRateLimit s (clock e) m) e1
        else Continue (updateRateLimit s (clock e) m)
               (sleep ThrottleBackoff (throttleDelay (timeParse e1) (clock e1) errorMap attempt) e1))"
  by (simp add: attempt_body_def)

text \<open>
  C5. At every attempt index with retries remaining, the delay slept after a response
  with error code 429 that carries no parseable Retry-After hint is
  \<open>base_delay * 2^(attempt+1)\<close>, and the delay slept after a transport-level failure
  at the same index is \<open>base_delay * 2^attempt\<close>, which is strictly shorter.
\<close>

theorem throttle_backoff_longer:
  assumes "attempt < maxRetries - 1" and "checkRateLimit s (clock e) m"
  shows "(makeRPCCall e m ps = (Inl err, e1) \<longrightarrow>
            attempt_body m ps attempt s e
              = Continue (updateRateLimit s (clock e) m)
                  (sleep TransportBackoff (baseDelay * 2 ^ attempt) e1))
       \<and> (makeRPCCall e m ps = (Inr resp, e1) \<and> Error resp = Map errorMap
            \<and> map_of errorMap ''code'' = Some (Float64 429)
            \<and> \<not> parseableHint (timeParse e1) (clock e1) errorMap \<longrightarrow>
            attempt_body m ps attempt s e
              = Continue (updateRateLimit s (clock e) m)
                  (sleep ThrottleBackoff (baseDelay * 2 ^ (attempt + 1)) e1))
       \<and> baseDelay * 2 ^ attempt < baseDelay * 2 ^ (attempt + 1)
       \<and> 0 < baseDelay * 2 ^ attempt"
proof -
  have a: "makeRPCCall e m ps = (Inl err, e1) \<longrightarrow>
            attempt_body m ps attempt s e
              = Continue (updateRateLimit s (clock e) m)
                  (sleep TransportBackoff (baseDelay * 2 ^ attempt) e1)"
    using assms by (simp add: body_transport_failure backoff_def)
  have b: "makeRPCCall e m ps = (Inr resp, e1) \<and> Error resp = Map errorMap
            \<and> map_of errorMap ''code'' = Some (Float64 429)
            \<and> \<not> parseableHint (timeParse e1) (clock e1) errorMap \<longrightarrow>
            attempt_body m ps attempt s e
              = Continue (updateRateLimit s (clock e) m)
                  (sleep ThrottleBackoff (baseDelay * 2 ^ (attempt + 1)) e1)"
    using assms by (clarsimp simp: body_throttled throttleDelay_no_hint backoff_def)
  have c: "baseDelay * 2 ^ attempt < baseDelay * 2 ^ (attempt + 1) \<and> 0 < baseDelay * 2 ^ attempt"
    by (simp add: baseDelay_def Second_def)
  show ?thesis using a b c by blast
qed


section \<open>Retrying caller: the attempt budget\<close>

lemma makeRPCCall_trace:
  "makeRPCCall e m ps = (r, e1) \<Longrightarrow> trace e1 = trace e \<or> trace e1 = Posted m # trace e"
  by (auto simp: makeRPCCall_def post_def split: http_outcome.splits sum.splits iface.splits if_splits)

lemma makeRPCCall_counts:
  "makeRPCCall e m ps = (r, e1) \<Longrightarrow>
     dispatches (trace e1) \<le> dispatches (trace e) + 1 \<and> cooldowns (trace e1) = cooldowns (trace e)"
  using makeRPCCall_trace [of e m ps r e1] by (auto simp: dispatches_def cooldowns_def)

lemma sleep_counts:
  "dispatches (trace (sleep st d e)) = dispatches (trace e)
   \<and> cooldowns (trace (sleep st d e)) = cooldowns (trace e) + (if st = Cooldown then 1 else 0)"
  by (simp add: sleep_def dispatches_def cooldowns_def)

lemma body_counts:
  "attempt_body m ps attempt s e = it \<Longrightarrow>
     (case it of Return r s' e' \<Rightarrow>
          dispatches (trace e') + cooldowns (trace e') \<le> dispatches (trace e) + cooldowns (trace e) + 1
      | Continue s' e' \<Rightarrow>
          dispatches (trace e') + cooldowns (trace e') \<le> dispatches (trace e) + cooldowns (trace e) + 1)"
proof (cases "checkRateLimit s (clock e) m")
  case False
  assume "attempt_body m ps attempt s e = it"
  then show ?thesis using False by (auto simp: attempt_body_def sleep_counts)
next
  case True
  assume b: "attempt_body m ps attempt s e = it"
  obtain r e1 where mk: "makeRPCCall e m ps = (r, e1)"
    by (cases "makeRPCCall e m ps")
  have c: "dispatches (trace e1) \<le> dispatches (trace e) + 1" "cooldowns (trace e1) = cooldowns (trace e)"
    using makeRPCCall_counts [OF mk] by simp_all
  show ?thesis using b True mk c
    by (auto simp: attempt_body_def sleep_counts Let_def split: sum.splits iface.splits if_splits)
qed

lemma retry_from_budget:
  "attempt \<le> maxRetries \<Longrightarrow> retry_from m ps attempt s e = (r, s', e') \<Longrightarrow>
     dispatches (trace e') + cooldowns (trace e') + attempt
       \<le> dispatches (trace e) + cooldowns (trace e) + maxRetries"
proof (induction m ps attempt s e rule: retry_from.induct)
  case (1 m ps attempt s e)
  show ?case
  proof (cases "attempt < maxRetries")
    case False
    then show ?thesis using "1.prems" by (simp add: retry_from.simps)
  next
    case True
    show ?thesis
    proof (cases "attempt_body m ps attempt s e")
      case (Return r0 s0 e0)
      then have "e' = e0" using "1.prems" True by (simp add: retry_from.simps)
      then show ?thesis using body_counts [OF Return] True by simp
    next
      case (Continue s0 e0)
      then have "retry_from m ps (attempt + 1) s0 e0 = (r, s', e')"
        using "1.prems" True by (simp add: retry_from.simps)
      then have "dispatches (trace e') + cooldowns (trace e') + (attempt + 1)
                   \<le> dispatches (trace e0) + cooldowns (trace e0) + maxRetries"
        using "1.IH" [OF True Continue] True by simp
      then show ?thesis using body_counts [OF Continue] by simp
    qed
  qed
qed

text \<open>
  C1, as the code has it. Whenever \<open>checkRateLimit(method)\<close> is not eligible the caller
  sleeps the fixed 2-second cooldown and goes on to the next attempt index: the
  \<open>continue\<close> runs the loop's \<open>attempt++\<close>, so the rate-limited iteration uses up one of
  the 3 iterations. In every execution the dispatches via Transport and the rate-limited
  iterations together number at most 3, and a rate-limited last iteration ends the call
  with "max retries exceeded" without a dispatch.
\<close>

theorem rate_limited_iteration_uses_slot:
  "(attempt < maxRetries \<and> \<not> checkRateLimit s (clock e) m \<longrightarrow>
      attempt_body m ps attempt s e = Continue s (sleep Cooldown (2 * Second) e)
      \<and> retry_from m ps attempt s e
          = retry_from m ps (attempt + 1) s (sleep Cooldown (2 * Second) e))
   \<and> (makeRPCCallWithRetry m ps s e = (r, s', e') \<longrightarrow>
        dispatches (trace e') + cooldowns (trace e')
          \<le> dispatches (trace e) + cooldowns (trace e) + maxRetries)
   \<and> (\<not> checkRateLimit s (clock e) m \<longrightarrow>
        retry_from m ps (maxRetries - 1) s e
          = (Inl MaxRetriesExceeded, s, sleep Cooldown (2 * Second) e))"
proof -
  have a: "attempt < maxRetries \<and> \<not> checkRateLimit s (clock e) m \<longrightarrow>
      attempt_body m ps attempt s e = Continue s (sleep Cooldown (2 * Second) e)
      \<and> retry_from m ps attempt s e
          = retry_from m ps (attempt + 1) s (sleep Cooldown (2 * Second) e)"
    by (simp add: retry_from_rate_limited) (simp add: attempt_body_def)
  have b: "makeRPCCallWithRetry m ps s e = (r, s', e') \<longrightarrow>
        dispatches (trace e') + cooldowns (trace e')
          \<le> dispatches (trace e) + cooldowns (trace e) + maxRetries"
    using retry_from_budget [of 0 m ps s e r s' e'] by (simp add: makeRPCCallWithRetry_def)
  have c: "\<not> checkRateLimit s (clock e) m \<longrightarrow>
        retry_from m ps (maxRetries - 1) s e
          = (Inl MaxRetriesExceeded, s, sleep Cooldown (2 * Second) e)"
  proof
    assume n: "\<not> checkRateLimit s (clock e) m"
    have "retry_from m ps (maxRetries - 1) s e
            = retry_from m ps (maxRetries - 1 + 1) s (sleep Cooldown (2 * Second) e)"
      by (rule retry_from_rate_limited [OF _ n]) (simp add: maxRetries_def)
    also have "\<dots> = (Inl MaxRetriesExceeded, s, sleep Cooldown (2 * Second) e)"
      by (subst retry_from.simps) (simp add: maxRetries_def)
    finally show "retry_from m ps (maxRetries - 1) s e
          = (Inl MaxRetriesExceeded, s, sleep Cooldown (2 * Second) e)" .
  qed
  show ?thesis using a b c by blast
qed

lemmas run_defs = makeRPCCallWithRetry_def retry_from.simps attempt_body_def maxRetries_def
  NewSolanaClient_def updateRateLimit_def checkRateLimit_def plain_client_def
  Since_def sat64_def Second_def sleep_def makeRPCCall_def post_def backoff_def baseDelay_def
  dispatches_def cooldowns_def

lemmas example_defs = run_defs busy_client_def failing_env_def hinting_env_def throttling_env_def
  throttled_def throttleDelay_def parseableHint_def

theorem rate_limited_iteration_uses_slot_witness:
  "(0::nat) < maxRetries
   \<and> \<not> checkRateLimit busy_client (clock failing_env) ''getSlot''
   \<and> attempt_body ''getSlot'' [] 0 busy_client failing_env
       = Continue busy_client (sleep Cooldown (2 * Second) failing_env)
   \<and> retry_from ''getSlot'' [] 0 busy_client failing_env
       = retry_from ''getSlot'' [] (0 + 1) busy_client (sleep Cooldown (2 * Second) failing_env)
   \<and> makeRPCCallWithRetry ''getSlot'' [] busy_client failing_env
       = (fst (makeRPCCallWithRetry ''getSlot'' [] busy_client failing_env),
          fst (snd (makeRPCCallWithRetry ''getSlot'' [] busy_client failing_env)),
          snd (snd (makeRPCCallWithRetry ''getSlot'' [] busy_client failing_env)))
   \<and> dispatches (trace (snd (snd (makeRPCCallWithRetry ''getSlot'' [] busy_client failing_env))))
       + cooldowns (trace (snd (snd (makeRPCCallWithRetry ''getSlot'' [] busy_client failing_env))))
       \<le> dispatches (trace failing_env) + cooldowns (trace failing_env) + maxRetries
   \<and> retry_from ''getSlot'' [] (maxRetries - 1) busy_client failing_env
       = (Inl MaxRetriesExceeded, busy_client, sleep Cooldown (2 * Second) failing_env)"
  using rate_limited_iteration_uses_slot [where attempt = 0 and s = busy_client and e = failing_env
      and m = "''getSlot''" and ps = "[]"
      and r = "fst (makeRPCCallWithRetry ''getSlot'' [] busy_client failing_env)"
      and s' = "fst (snd (makeRPCCallWithRetry ''getSlot'' [] busy_client failing_env))"
      and e' = "snd (snd (makeRPCCallWithRetry ''getSlot'' [] busy_client failing_env))"]
  by (simp add: example_defs)

text \<open>
  C1, as stated, fails. A client that has just dispatched \<open>getSlot\<close> calls again while
  the node refuses every connection: the first iteration is rate-limited, only two
  dispatches follow, and the call gives up with the transport error of the second, which
  the loop returns on its last index only. When the node throttles with
  \<open>Retry-After: 1\<close> instead, the first and the third iteration are rate-limited and the
  call ends with "max retries exceeded" after a single dispatch.
\<close>

theorem rate_limited_iteration_counterexample:
  "\<not> checkRateLimit busy_client (clock failing_env) ''getSlot''
   \<and> fst (makeRPCCallWithRetry ''getSlot'' [] busy_client failing_env) = Inl (PostError ''connection refused'')
   \<and> dispatches (trace (snd (snd (makeRPCCallWithRetry ''getSlot'' [] busy_client failing_env)))) = 2
   \<and> cooldowns (trace (snd (snd (makeRPCCallWithRetry ''getSlot'' [] busy_client failing_env)))) = 1
   \<and> fst (makeRPCCallWithRetry ''getSlot'' [] busy_client hinting_env) = Inl MaxRetriesExceeded
   \<and> dispatches (trace (snd (snd (makeRPCCallWithRetry ''getSlot'' [] busy_client hinting_env)))) = 1
   \<and> cooldowns (trace (snd (snd (makeRPCCallWithRetry ''getSlot'' [] busy_client hinting_env)))) = 2"
  by (simp add: run_defs busy_client_def failing_env_def hinting_env_def throttled_def
      throttleDelay_def parseRetryAfter_def Atoi_def is_digit_def wrap64_def Minute_def)


section \<open>Retrying caller: exhaustion\<close>

lemma retry_from_transport_failure:
  "attempt < maxRetries - 1 \<Longrightarrow> checkRateLimit s (clock e) m \<Longrightarrow>
   makeRPCCall e m ps = (Inl err, e1) \<Longrightarrow>
     retry_from m ps attempt s e
       = retry_from m ps (attempt + 1) (updateRateLimit s (clock e) m)
           (sleep TransportBackoff (backoff attempt) e1)"
  by (subst retry_from.simps) (auto simp: body_transport_failure)

lemma retry_from_last_transport_failure:
  "checkRateLimit s (clock e) m \<Longrightarrow> makeRPCCall e m ps = (Inl err, e1) \<Longrightarrow>
     retry_from m ps (maxRetries - 1) s e = (Inl err, updateRateLimit s (clock e) m, e1)"
  by (subst retry_from.simps) (simp add: body_transport_failure maxRetries_def)

lemma retry_from_last_throttled:
  "checkRateLimit s (clock e) m \<Longrightarrow> makeRPCCall e m ps = (Inr resp, e1) \<Longrightarrow>
   Error resp = Map errorMap \<Longrightarrow> map_of errorMap ''code'' = Some (Float64 429) \<Longrightarrow>
     retry_from m ps (maxRetries - 1) s e = (Inr resp, updateRateLimit s (clock e) m, e1)"
  by (subst retry_from.simps) (simp add: body_throttled maxRetries_def)

text \<open>
  C4. When the last permitted attempt dispatches and receives a response whose error
  object has the numeric code 429, the call returns that response with a nil error; when
  three dispatches in a row fail at the transport level, the call returns the last
  transport error and no response. An error return and a response return are different
  results.
\<close>

theorem exhaustion_modes:
  "(checkRateLimit s (clock e) m \<and> makeRPCCall e m ps = (Inr resp, e1)
      \<and> Error resp = Map errorMap \<and> map_of errorMap ''code'' = Some (Float64 429) \<longrightarrow>
      retry_from m ps (maxRetries - 1) s e
        = (Inr resp, updateRateLimit s (clock e) m, e1))
   \<and> (checkRateLimit s0 (clock e0) m \<and> makeRPCCall e0 m ps = (Inl err1, e1')
      \<and> s1 = updateRateLimit s0 (clock e0) m \<and> e1'' = sleep TransportBackoff (backoff 0) e1'
      \<and> checkRateLimit s1 (clock e1'') m \<and> makeRPCCall e1'' m ps = (Inl err2, e2')
      \<and> s2 = updateRateLimit s1 (clock e1'') m \<and> e2'' = sleep TransportBackoff (backoff 1) e2'
      \<and> checkRateLimit s2 (clock e2'') m \<and> makeRPCCall e2'' m ps = (Inl err3, e3') \<longrightarrow>
      makeRPCCallWithRetry m ps s0 e0
        = (Inl err3, updateRateLimit s2 (clock e2'') m, e3'))
   \<and> (Inl err3 :: error + RPCResponse) \<noteq> Inr resp"
proof -
  have a: "checkRateLimit s (clock e) m \<and> makeRPCCall e m ps = (Inr resp, e1)
      \<and> Error resp = Map errorMap \<and> map_of errorMap ''code'' = Some (Float64 429) \<longrightarrow>
      retry_from m ps (maxRetries - 1) s e
        = (Inr resp, updateRateLimit s (clock e) m, e1)"
    using retry_from_last_throttled by blast
  have b: "checkRateLimit s0 (clock e0) m \<and> makeRPCCall e0 m ps = (Inl err1, e1')
      \<and> s1 = updateRateLimit s0 (clock e0) m \<and> e1'' = sleep TransportBackoff (backoff 0) e1'
      \<and> checkRateLimit s1 (clock e1'') m \<and> makeRPCCall e1'' m ps = (Inl err2, e2')
      \<and> s2 = updateRateLimit s1 (clock e1'') m \<and> e2'' = sleep TransportBackoff (backoff 1) e2'
      \<and> checkRateLimit s2 (clock e2'') m \<and> makeRPCCall e2'' m ps = (Inl err3, e3') \<longrightarrow>
      makeRPCCallWithRetry m ps s0 e0
        = (Inl err3, updateRateLimit s2 (clock e2'') m, e3')"
  proof (intro impI, elim conjE)
    assume c0: "checkRateLimit s0 (clock e0) m" and m0: "makeRPCCall e0 m ps = (Inl err1, e1')"
      and s1: "s1 = updateRateLimit s0 (clock e0) m" and e1: "e1'' = sleep TransportBackoff (backoff 0) e1'"
      and c1: "checkRateLimit s1 (clock e1'') m" and m1: "makeRPCCall e1'' m ps = (Inl err2, e2')"
      and s2: "s2 = updateRateLimit s1 (clock e1'') m" and e2: "e2'' = sleep TransportBackoff (backoff 1) e2'"
      and c2: "checkRateLimit s2 (clock e2'') m" and m2: "makeRPCCall e2'' m ps = (Inl err3, e3')"
    have "makeRPCCallWithRetry m ps s0 e0 = retry_from m ps (0 + 1) s1 e1''"
      unfolding makeRPCCallWithRetry_def s1 e1
      by (rule retry_from_transport_failure [OF _ c0 m0]) (simp add: maxRetries_def)
    also have "\<dots> = retry_from m ps (1 + 1) s2 e2''"
      unfolding s2 e2 using retry_from_transport_failure [OF _ c1 m1, of 1]
      by (simp add: maxRetries_def)
    also have "\<dots> = (Inl err3, updateRateLimit s2 (clock e2'') m, e3')"
      using retry_from_last_transport_failure [OF c2 m2] by (simp add: maxRetries_def numeral_2_eq_2)
    finally show "makeRPCCallWithRetry m ps s0 e0
        = (Inl err3, updateRateLimit s2 (clock e2'') m, e3')" .
  qed
  show ?thesis using a b by blast
qed


theorem exhaustion_modes_witness:
  "checkRateLimit plain_client (clock throttling_env) ''getSlot''
   \<and> makeRPCCall throttling_env ''getSlot'' [] = (Inr throttled, post ''getSlot'' throttling_env)
   \<and> Error throttled = Map [(''code'', Float64 429), (''message'', String ''Too many requests'')]
   \<and> map_of [(''code'', Float64 429), (''message'', String ''Too many requests'')] ''code''
       = Some (Float64 429)
   \<and> retry_from ''getSlot'' [] (maxRetries - 1) plain_client throttling_env
       = (Inr throttled, updateRateLimit plain_client (clock throttling_env) ''getSlot'',
          post ''getSlot'' throttling_env)
   \<and> fst (makeRPCCallWithRetry ''getSlot'' [] plain_client throttling_env) = Inr throttled
   \<and> dispatches (trace (snd (snd (makeRPCCallWithRetry ''getSlot'' [] plain_client throttling_env)))) = 3
   \<and> checkRateLimit plain_client (clock failing_env) ''getSlot''
   \<and> makeRPCCall failing_env ''getSlot'' []
       = (Inl (PostError ''connection refused''), post ''getSlot'' failing_env)
   \<and> fst (makeRPCCallWithRetry ''getSlot'' [] plain_client failing_env)
       = Inl (PostError ''connection refused'')
   \<and> dispatches (trace (snd (snd (makeRPCCallWithRetry ''getSlot'' [] plain_client failing_env)))) = 3"
  using exhaustion_modes [where s = plain_client and e = throttling_env
      and m = "''getSlot''" and ps = "[]" and resp = throttled
      and ?e1.0 = "post ''getSlot'' throttling_env"
      and errorMap = "[(''code'', Float64 429), (''message'', String ''Too many requests'')]"
      and ?s0.0 = plain_client and ?e0.0 = failing_env
      and ?err1.0 = "PostError ''connection refused''"
      and ?err2.0 = "PostError ''connection refused''"
      and ?err3.0 = "PostError ''connection refused''"
      and ?e1' = "post ''getSlot'' failing_env"
      and ?s1.0 = "updateRateLimit plain_client (clock failing_env) ''getSlot''"
      and ?e1'' = "sleep TransportBackoff (backoff 0) (post ''getSlot'' failing_env)"
      and ?e2' = "post ''getSlot'' (sleep TransportBackoff (backoff 0) (post ''getSlot'' failing_env))"
      and ?s2.0 = "updateRateLimit (updateRateLimit plain_client (clock failing_env) ''getSlot'')
                     (clock (sleep TransportBackoff (backoff 0) (post ''getSlot'' failing_env))) ''getSlot''"
      and ?e2'' = "sleep TransportBackoff (backoff 1)
                     (post ''getSlot'' (sleep TransportBackoff (backoff 0) (post ''getSlot'' failing_env)))"
      and ?e3' = "post ''getSlot'' (sleep TransportBackoff (backoff 1)
                     (post ''getSlot'' (sleep TransportBackoff (backoff 0) (post ''getSlot'' failing_env))))"]
  by (simp add: example_defs)

theorem throttle_backoff_longer_witness:
  "(0::nat) < maxRetries - 1
   \<and> checkRateLimit plain_client (clock throttling_env) ''getSlot''
   \<and> makeRPCCall throttling_env ''getSlot'' [] = (Inr throttled, post ''getSlot'' throttling_env)
   \<and> Error throttled = Map [(''code'', Float64 429), (''message'', String ''Too many requests'')]
   \<and> map_of [(''code'', Float64 429), (''message'', String ''Too many requests'')] ''code''
       = Some (Float64 429)
   \<and> \<not> parseableHint (timeParse (post ''getSlot'' throttling_env)) (clock (post ''getSlot'' throttling_env))
         [(''code'', Float64 429), (''message'', String ''Too many requests'')]
   \<and> attempt_body ''getSlot'' [] 0 plain_client throttling_env
       = Continue (updateRateLimit plain_client (clock throttling_env) ''getSlot'')
           (sleep ThrottleBackoff (2 * Second) (post ''getSlot'' throttling_env))
   \<and> checkRateLimit plain_client (clock failing_env) ''getSlot''
   \<and> makeRPCCall failing_env ''getSlot'' []
       = (Inl (PostError ''connection refused''), post ''getSlot'' failing_env)
   \<and> attempt_body ''getSlot'' [] 0 plain_client failing_env
       = Continue (updateRateLimit plain_client (clock failing_env) ''getSlot'')
           (sleep TransportBackoff (1 * Second) (post ''getSlot'' failing_env))
   \<and> 1 * Second < 2 * Second"
  using throttle_backoff_longer [where attempt = 0 and s = plain_client and e = throttling_env
      and m = "''getSlot''" and ps = "[]" and resp = throttled
      and ?e1.0 = "post ''getSlot'' throttling_env"
      and errorMap = "[(''code'', Float64 429), (''message'', String ''Too many requests'')]"]
    throttle_backoff_longer [where attempt = 0 and s = plain_client and e = failing_env
      and m = "''getSlot''" and ps = "[]" and err = "PostError ''connection refused''"
      and ?e1.0 = "post ''getSlot'' failing_env"]
  by (simp add: example_defs)

end
